theory Spec2Isabelle
  imports Main "HOL-Library.Sublist"
begin

section \<open>Strings\<close>

text \<open>
  A Python \<^verbatim>\<open>str\<close> is a sequence of Unicode code points, and the program's status
  labels and messages are Cyrillic, so a string is a list of code points here (not a list
  of bytes). \<open>ascii\<close> reads an ASCII literal as such a string.
\<close>

type_synonym pystr = "nat list"

definition ascii :: "string \<Rightarrow> pystr" where
  "ascii s = map of_char s"

text \<open>
  The two status labels of the source, as their code points: the Russian for
  "in stock" (transliterated \<^verbatim>\<open>v nalichii\<close>, U+0432 U+0020 U+043D U+0430 U+043B U+0438
  U+0447 U+0438 U+0438), which the spec calls "available", and for "lent out"
  (\<^verbatim>\<open>vydana\<close>, U+0432 U+044B U+0434 U+0430 U+043D U+0430), the spec's "checked out".
\<close>

definition available :: pystr where
  "available = [1074, 32, 1085, 1072, 1083, 1080, 1095, 1080, 1080]"

definition checked_out :: pystr where
  "checked_out = [1074, 1099, 1076, 1072, 1085, 1072]"

section \<open>Book\<close>

text \<open>
  The class \<^verbatim>\<open>Book\<close> with the field types of its constructor's annotations
  (\<^verbatim>\<open>book_id: int, title: str, author: str, year: int, status: str\<close>). The field
  \<^verbatim>\<open>id\<close> is \<open>id'\<close> here, \<open>id\<close> being HOL's identity function.
  Python's integers are unbounded (\<open>int\<close>); the interpreter's configurable limit on the
  number of digits it converts between integers and text is not modelled.
\<close>

record book =
  id' :: int
  title :: pystr
  author :: pystr
  year :: int
  status :: pystr

text \<open>\<^verbatim>\<open>Book.__init__\<close>, and the constructor call that leaves \<^verbatim>\<open>status\<close> at its default.\<close>

definition Book :: "int \<Rightarrow> pystr \<Rightarrow> pystr \<Rightarrow> int \<Rightarrow> pystr \<Rightarrow> book" where
  "Book book_id title' author' year' status' =
     \<lparr>id' = book_id, title = title', author = author', year = year', status = status'\<rparr>"

definition Book_default :: "int \<Rightarrow> pystr \<Rightarrow> pystr \<Rightarrow> int \<Rightarrow> book" where
  "Book_default book_id title' author' year' = Book book_id title' author' year' available"

section \<open>LibraryManager\<close>

text \<open>
  The manager's state is its two attributes. Every \<^verbatim>\<open>Book\<close> object of the program is
  made by one constructor call (in \<^verbatim>\<open>from_dict\<close> or in \<^verbatim>\<open>add_book\<close>) and put into
  the list once, so no two slots of \<^verbatim>\<open>self.books\<close> hold the same object: the list of
  objects is modelled as a list of values, and a method that mutates the state returns
  the new state beside its result.
\<close>

record library_manager =
  filename :: pystr
  books :: "book list"

text \<open>
  \<^verbatim>\<open>max(iterable, default=0)\<close>: the default for an empty iterable, otherwise the
  running maximum from the first element on.
\<close>

fun max_default :: "int list \<Rightarrow> int \<Rightarrow> int" where
  "max_default [] d = d"
| "max_default (x # xs) d = fold max xs x"

definition add_book :: "library_manager \<Rightarrow> pystr \<Rightarrow> pystr \<Rightarrow> int \<Rightarrow> book \<times> library_manager" where
  "add_book self title' author' year' =
     (let book_id = max_default (map id' (books self)) 0 + 1;
          new_book = Book_default book_id title' author' year'
      in (new_book, self\<lparr>books := books self @ [new_book]\<rparr>))"

text \<open>
  \<^verbatim>\<open>next((book for book in self.books if book.id == book_id), None)\<close> is the first
  book of the list with that id (\<open>find\<close>), or \<^verbatim>\<open>None\<close>. A \<^verbatim>\<open>Book\<close> object is
  always true in \<^verbatim>\<open>if book:\<close> (the class defines neither \<^verbatim>\<open>__bool__\<close> nor
  \<^verbatim>\<open>__len__\<close>), so the test separates exactly "found" from \<^verbatim>\<open>None\<close>.
  \<^verbatim>\<open>list.remove\<close> deletes the first element equal to its argument (\<open>remove1\<close>);
  the class defines no \<^verbatim>\<open>__eq__\<close>, so in Python that is the found object itself, and
  in the list of values it is the element at the position where \<open>find\<close> stopped (an
  equal value has the same id, and no earlier element has that id).
\<close>

definition remove_book :: "library_manager \<Rightarrow> int \<Rightarrow> bool \<times> library_manager" where
  "remove_book self book_id =
     (case find (\<lambda>book. id' book = book_id) (books self) of
        Some book \<Rightarrow> (True, self\<lparr>books := remove1 book (books self)\<rparr>)
      | None \<Rightarrow> (False, self))"

text \<open>
  In \<^verbatim>\<open>update_status\<close> the object that \<^verbatim>\<open>next\<close> returns is mutated in place; the
  list sees the change in the slot that holds the object, which is the first slot whose
  book has the id. \<open>first_index\<close> is the position of that slot.
\<close>

fun first_index :: "('a \<Rightarrow> bool) \<Rightarrow> 'a list \<Rightarrow> nat option" where
  "first_index P [] = None"
| "first_index P (x # xs) = (if P x then Some 0 else map_option Suc (first_index P xs))"

definition update_status :: "library_manager \<Rightarrow> int \<Rightarrow> pystr \<Rightarrow> bool \<times> library_manager" where
  "update_status self book_id new_status =
     (if new_status \<notin> {available, checked_out} then (False, self)
      else case first_index (\<lambda>book. id' book = book_id) (books self) of
        Some i \<Rightarrow>
          (True, self\<lparr>books := (books self)[i := (books self ! i)\<lparr>status := new_status\<rparr>]\<rparr>)
      | None \<Rightarrow> (False, self))"

subsection \<open>Searching\<close>

text \<open>\<^verbatim>\<open>str(n)\<close> for an integer: its decimal digits, after a minus sign when negative.\<close>

fun digits :: "nat \<Rightarrow> pystr" where
  "digits n = (if n < 10 then [48 + n] else digits (n div 10) @ [48 + n mod 10])"

declare digits.simps [simp del]

definition str_int :: "int \<Rightarrow> pystr" where
  "str_int n = (if n < 0 then 45 # digits (nat (- n)) else digits (nat n))"

text \<open>
  \<^verbatim>\<open>str(getattr(book, key, ""))\<close>: the text of a field, a string as it is and an
  integer in decimal, and the text of the default \<^verbatim>\<open>""\<close> for a name that is no
  attribute. (The names of the class's methods are attributes too; the guard of
  \<^verbatim>\<open>search_books\<close> lets only \<^verbatim>\<open>title\<close>, \<^verbatim>\<open>author\<close> and \<^verbatim>\<open>year\<close> reach this
  call.)
\<close>

definition str_getattr :: "book \<Rightarrow> pystr \<Rightarrow> pystr" where
  "str_getattr book key =
     (if key = ascii ''id'' then str_int (id' book)
      else if key = ascii ''title'' then title book
      else if key = ascii ''author'' then author book
      else if key = ascii ''year'' then str_int (year book)
      else if key = ascii ''status'' then status book
      else [])"

text \<open>
  \<^verbatim>\<open>needle in hay\<close> on strings: some slice of \<open>hay\<close> of the needle's length, starting at
  an offset from 0 to \<open>len(hay)\<close>, equals the needle.
\<close>

definition str_in :: "pystr \<Rightarrow> pystr \<Rightarrow> bool" where
  "str_in needle hay =
     list_ex (\<lambda>i. take (length needle) (drop i hay) = needle) [0 ..< Suc (length hay)]"

text \<open>
  \<^verbatim>\<open>str.lower\<close> belongs to the Python runtime (the full Unicode lower-casing, which is
  not a character-by-character map), so \<^verbatim>\<open>search_books\<close> takes it as the parameter
  \<open>lower\<close>. Two fragments of it serve the concrete runs below. \<open>ascii_lower\<close> is what
  it does on strings of ASCII characters. \<open>greek_lower\<close> is what it does on strings of
  ASCII letters, digits, spaces and the Greek letters U+0391 to U+03A9 and U+03B1 to
  U+03C9: a capital goes to the small letter 32 code points above it, except that a
  capital sigma (U+03A3) which has a cased letter before it and none after it goes to the
  final small sigma U+03C2, not to U+03C3 (Unicode's final-sigma rule).
\<close>

definition ascii_lower :: "pystr \<Rightarrow> pystr" where
  "ascii_lower s = map (\<lambda>c. if 65 \<le> c \<and> c \<le> 90 then c + 32 else c) s"

definition cased :: "nat \<Rightarrow> bool" where
  "cased c \<longleftrightarrow>
     (65 \<le> c \<and> c \<le> 90) \<or> (97 \<le> c \<and> c \<le> 122)
     \<or> (913 \<le> c \<and> c \<le> 937 \<and> c \<noteq> 930) \<or> (945 \<le> c \<and> c \<le> 969)"

definition lower_char :: "nat \<Rightarrow> nat" where
  "lower_char c =
     (if (65 \<le> c \<and> c \<le> 90) \<or> (913 \<le> c \<and> c \<le> 937 \<and> c \<noteq> 930) then c + 32 else c)"

fun lower_from :: "bool \<Rightarrow> pystr \<Rightarrow> pystr" where
  "lower_from after_cased [] = []"
| "lower_from after_cased (c # cs) =
     (if c = 931
      then (if after_cased \<and> \<not> (case cs of [] \<Rightarrow> False | d # ds \<Rightarrow> cased d) then 962 else 963)
      else lower_char c)
     # lower_from (cased c) cs"

definition greek_lower :: "pystr \<Rightarrow> pystr" where
  "greek_lower s = lower_from False s"

definition search_books ::
  "(pystr \<Rightarrow> pystr) \<Rightarrow> library_manager \<Rightarrow> pystr \<Rightarrow> pystr \<Rightarrow> book list \<times> library_manager" where
  "search_books lower self query key =
     (if key \<notin> {ascii ''title'', ascii ''author'', ascii ''year''} then ([], self)
      else (filter (\<lambda>book. str_in (lower query) (lower (str_getattr book key))) (books self),
            self))"

subsection \<open>Printing\<close>

text \<open>
  What \<^verbatim>\<open>print\<close> writes is modelled as the list of the lines printed. The messages
  and labels are the source's Russian literals, as code points: "The library is empty."
  and "List of books:", the labels \<^verbatim>\<open>, Title: \<close>, \<^verbatim>\<open>, Author: \<close>, \<^verbatim>\<open>, Year: \<close> and
  \<^verbatim>\<open>, Status: \<close> of a book's line, and "No books found."
\<close>

definition msg_library_empty :: pystr where
  "msg_library_empty =
     [1041, 1080, 1073, 1083, 1080, 1086, 1090, 1077, 1082, 1072, 32,
      1087, 1091, 1089, 1090, 1072, 46]"

definition msg_book_list :: pystr where
  "msg_book_list = [1057, 1087, 1080, 1089, 1086, 1082, 32, 1082, 1085, 1080, 1075, 58]"

definition label_title :: pystr where
  "label_title = [44, 32, 1053, 1072, 1079, 1074, 1072, 1085, 1080, 1077, 58, 32]"

definition label_author :: pystr where
  "label_author = [44, 32, 1040, 1074, 1090, 1086, 1088, 58, 32]"

definition label_year :: pystr where
  "label_year = [44, 32, 1043, 1086, 1076, 58, 32]"

definition label_status :: pystr where
  "label_status = [44, 32, 1057, 1090, 1072, 1090, 1091, 1089, 58, 32]"

definition msg_not_found :: pystr where
  "msg_not_found =
     [1050, 1085, 1080, 1075, 1080, 32, 1085, 1077, 32,
      1085, 1072, 1081, 1076, 1077, 1085, 1099, 46]"

text \<open>The line that the f-string of \<^verbatim>\<open>display_books\<close> makes of one book.\<close>

definition book_line :: "book \<Rightarrow> pystr" where
  "book_line book =
     ascii ''ID: '' @ str_int (id' book) @ label_title @ title book
       @ label_author @ author book @ label_year @ str_int (year book)
       @ label_status @ status book"

definition display_books :: "library_manager \<Rightarrow> pystr list \<times> library_manager" where
  "display_books self =
     (if books self = [] then ([msg_library_empty], self)
      else (msg_book_list # map book_line (books self), self))"

text \<open>
  The branch \<^verbatim>\<open>elif choice == "3"\<close> of \<^verbatim>\<open>main\<close>, after its two \<^verbatim>\<open>input\<close> calls
  have read \<open>key\<close> and \<open>query\<close>: the lines it prints, and the manager after it.
\<close>

definition main_choice_3 ::
  "(pystr \<Rightarrow> pystr) \<Rightarrow> library_manager \<Rightarrow> pystr \<Rightarrow> pystr \<Rightarrow> pystr list \<times> library_manager" where
  "main_choice_3 lower library key query =
     (let (results, library1) = search_books lower library query key
      in if results \<noteq> [] then display_books library1
         else ([msg_not_found], library1))"

subsection \<open>Sequences of operations\<close>

text \<open>
  The five operations of the store as commands, and the state after a sequence of them;
  the results of the calls are dropped, the state is threaded through.
\<close>

datatype command =
    Add pystr pystr int
  | Remove int
  | Search pystr pystr
  | Update int pystr
  | Display

fun step :: "(pystr \<Rightarrow> pystr) \<Rightarrow> library_manager \<Rightarrow> command \<Rightarrow> library_manager" where
  "step lower self (Add title' author' year') = snd (add_book self title' author' year')"
| "step lower self (Remove book_id) = snd (remove_book self book_id)"
| "step lower self (Search query key) = snd (search_books lower self query key)"
| "step lower self (Update book_id new_status) = snd (update_status self book_id new_status)"
| "step lower self Display = snd (display_books self)"

definition run :: "(pystr \<Rightarrow> pystr) \<Rightarrow> library_manager \<Rightarrow> command list \<Rightarrow> library_manager" where
  "run lower self cmds = foldl (step lower) self cmds"

text \<open>The invariant of the spec's data model: ids are unique, every status is one of the two labels.\<close>

definition invariant :: "library_manager \<Rightarrow> bool" where
  "invariant self \<longleftrightarrow>
     distinct (map id' (books self))
     \<and> list_all (\<lambda>book. status book = available \<or> status book = checked_out) (books self)"

section \<open>Persistence\<close>

subsection \<open>JSON values, exceptions, files\<close>

text \<open>
  The Python values that \<^verbatim>\<open>json.load\<close> returns and \<^verbatim>\<open>json.dump\<close> takes: \<^verbatim>\<open>None\<close>,
  booleans, integers, strings, lists, and dictionaries with string keys (a list of
  key-value pairs, looked up with \<open>map_of\<close>). Floats are left out.
\<close>

datatype json =
    JNull
  | JBool bool
  | JInt int
  | JStr pystr
  | JList "json list"
  | JDict "(pystr \<times> json) list"

text \<open>
  The exceptions of the persistence code. \<open>NotAsAnnotated\<close> is not a Python exception:
  it marks the end of this model. Where a dictionary holds, under one of the five keys, a
  value of another type than \<^verbatim>\<open>Book\<close>'s annotation for the field (a string for
  \<^verbatim>\<open>id\<close>, say), Python builds the object all the same; the record type \<open>book\<close> has no
  such value, and \<open>from_dict\<close> answers \<open>NotAsAnnotated\<close>. No theorem below is about such a
  file.
\<close>

datatype exn =
    FileNotFoundError
  | PermissionError
  | UnicodeDecodeError
  | UnicodeEncodeError
  | JSONDecodeError
  | KeyError pystr
  | TypeError
  | NotAsAnnotated

text \<open>
  What a path holds: nothing (\<open>Absent\<close>), something that \<^verbatim>\<open>open\<close> refuses to open
  (\<open>Locked\<close>, a \<^verbatim>\<open>PermissionError\<close>), or a file. A file's contents are classified by what
  reading them as UTF-8 and parsing them does: bytes that are not UTF-8 text
  (\<open>Undecodable\<close>: reading raises \<^verbatim>\<open>UnicodeDecodeError\<close>), text that \<^verbatim>\<open>json.load\<close>
  rejects with \<^verbatim>\<open>JSONDecodeError\<close> (\<open>Malformed\<close>), or the text of a JSON document,
  held as the value that \<^verbatim>\<open>json.load\<close> returns for it. That \<^verbatim>\<open>json.load\<close> gives
  back the value that \<^verbatim>\<open>json.dump\<close> wrote (for the integers, strings, lists and
  dictionaries here) is the library's part and is built into this representation.
\<close>

datatype contents = Undecodable | Malformed | Document json

datatype node = Absent | Locked | File contents

type_synonym filesystem = "pystr \<Rightarrow> node"

text \<open>Sequencing of steps that may raise: the first exception ends the computation.\<close>

definition and_then :: "exn + 'a \<Rightarrow> ('a \<Rightarrow> exn + 'b) \<Rightarrow> exn + 'b" where
  "and_then r f = (case r of Inl e \<Rightarrow> Inl e | Inr x \<Rightarrow> f x)"

subsection \<open>Book to dictionary and back\<close>

definition to_dict :: "book \<Rightarrow> json" where
  "to_dict self =
     JDict [(ascii ''id'', JInt (id' self)),
            (ascii ''title'', JStr (title self)),
            (ascii ''author'', JStr (author self)),
            (ascii ''year'', JInt (year self)),
            (ascii ''status'', JStr (status self))]"

text \<open>
  \<^verbatim>\<open>data[key]\<close> with a string key: a dictionary raises \<^verbatim>\<open>KeyError\<close> for a key it
  does not have; any other JSON value raises \<^verbatim>\<open>TypeError\<close> (a list and a string take
  integer indices only, the rest cannot be subscripted).
\<close>

fun getitem :: "json \<Rightarrow> pystr \<Rightarrow> exn + json" where
  "getitem (JDict items) key =
     (case map_of items key of None \<Rightarrow> Inl (KeyError key) | Some v \<Rightarrow> Inr v)"
| "getitem _ key = Inl TypeError"

fun as_int :: "json \<Rightarrow> exn + int" where
  "as_int (JInt n) = Inr n"
| "as_int _ = Inl NotAsAnnotated"

fun as_str :: "json \<Rightarrow> exn + pystr" where
  "as_str (JStr s) = Inr s"
| "as_str _ = Inl NotAsAnnotated"

text \<open>
  \<^verbatim>\<open>Book.from_dict\<close>: the five lookups in the order of the call's arguments, each of
  which can raise, then the constructor.
\<close>

definition from_dict :: "json \<Rightarrow> exn + book" where
  "from_dict data =
     and_then (getitem data (ascii ''id'')) (\<lambda>v1.
     and_then (getitem data (ascii ''title'')) (\<lambda>v2.
     and_then (getitem data (ascii ''author'')) (\<lambda>v3.
     and_then (getitem data (ascii ''year'')) (\<lambda>v4.
     and_then (getitem data (ascii ''status'')) (\<lambda>v5.
     and_then (as_int v1) (\<lambda>book_id.
     and_then (as_str v2) (\<lambda>title'.
     and_then (as_str v3) (\<lambda>author'.
     and_then (as_int v4) (\<lambda>year'.
     and_then (as_str v5) (\<lambda>status'.
       Inr (Book book_id title' author' year' status')))))))))))"

subsection \<open>Loading and saving\<close>

definition open_read :: "filesystem \<Rightarrow> pystr \<Rightarrow> exn + contents" where
  "open_read fs path =
     (case fs path of
        Absent \<Rightarrow> Inl FileNotFoundError
      | Locked \<Rightarrow> Inl PermissionError
      | File c \<Rightarrow> Inr c)"

definition json_load :: "contents \<Rightarrow> exn + json" where
  "json_load c =
     (case c of
        Undecodable \<Rightarrow> Inl UnicodeDecodeError
      | Malformed \<Rightarrow> Inl JSONDecodeError
      | Document v \<Rightarrow> Inr v)"

text \<open>
  \<^verbatim>\<open>for book in value\<close>: a list gives its elements, a dictionary its keys, a string
  its characters; the other values are not iterable.
\<close>

fun iterate :: "json \<Rightarrow> exn + json list" where
  "iterate (JList vs) = Inr vs"
| "iterate (JDict items) = Inr (map (\<lambda>item. JStr (fst item)) items)"
| "iterate (JStr s) = Inr (map (\<lambda>c. JStr [c]) s)"
| "iterate _ = Inl TypeError"

text \<open>The list comprehension \<^verbatim>\<open>[f(x) for x in xs]\<close>: the first exception of \<open>f\<close> ends it.\<close>

fun comprehension :: "('a \<Rightarrow> exn + 'b) \<Rightarrow> 'a list \<Rightarrow> exn + 'b list" where
  "comprehension f [] = Inr []"
| "comprehension f (x # xs) =
     and_then (f x) (\<lambda>y. and_then (comprehension f xs) (\<lambda>ys. Inr (y # ys)))"

text \<open>
  \<^verbatim>\<open>_load_from_file\<close>: the body of its \<^verbatim>\<open>try\<close>, and the \<^verbatim>\<open>except\<close> clause, which
  turns \<^verbatim>\<open>FileNotFoundError\<close> and \<^verbatim>\<open>json.JSONDecodeError\<close> into the empty list and
  lets every other exception through.
\<close>

definition load_try :: "filesystem \<Rightarrow> pystr \<Rightarrow> exn + book list" where
  "load_try fs path =
     and_then (open_read fs path) (\<lambda>file.
     and_then (json_load file) (\<lambda>value.
     and_then (iterate value) (comprehension from_dict)))"

definition load_from_file :: "filesystem \<Rightarrow> pystr \<Rightarrow> exn + book list" where
  "load_from_file fs path =
     (case load_try fs path of
        Inl e \<Rightarrow> if e = FileNotFoundError \<or> e = JSONDecodeError then Inr [] else Inl e
      | Inr loaded \<Rightarrow> Inr loaded)"

text \<open>\<^verbatim>\<open>LibraryManager.__init__\<close>.\<close>

definition LibraryManager :: "filesystem \<Rightarrow> pystr \<Rightarrow> exn + library_manager" where
  "LibraryManager fs filename' =
     and_then (load_from_file fs filename') (\<lambda>loaded.
       Inr \<lparr>filename = filename', books = loaded\<rparr>)"

text \<open>
  \<^verbatim>\<open>save_to_file\<close>. \<^verbatim>\<open>open(..., "w")\<close> creates or truncates the file unless the path
  is locked. With \<^verbatim>\<open>ensure_ascii=False\<close> the strings are written as they are, and the
  file's UTF-8 encoder raises \<^verbatim>\<open>UnicodeEncodeError\<close> for a string that holds a
  surrogate code point (U+D800 to U+DFFF); code points end at U+10FFFF. The five keys
  are ASCII. An exception of \<^verbatim>\<open>save_to_file\<close> ends the program, so the model returns
  it alone.
\<close>

definition utf8_encodable :: "pystr \<Rightarrow> bool" where
  "utf8_encodable s = list_all (\<lambda>c. c < 55296 \<or> (57344 \<le> c \<and> c \<le> 1114111)) s"

definition book_encodable :: "book \<Rightarrow> bool" where
  "book_encodable book \<longleftrightarrow>
     utf8_encodable (title book) \<and> utf8_encodable (author book) \<and> utf8_encodable (status book)"

definition save_to_file :: "filesystem \<Rightarrow> library_manager \<Rightarrow> exn + filesystem" where
  "save_to_file fs self =
     (if fs (filename self) = Locked then Inl PermissionError
      else if \<not> list_all book_encodable (books self) then Inl UnicodeEncodeError
      else Inr (fs(filename self := File (Document (JList (map to_dict (books self)))))))"

section \<open>A sample library\<close>

text \<open>Three books and a manager holding them, for the concrete runs of the theorems below.\<close>

definition dune :: book where
  "dune = Book_default 1 (ascii ''Dune'') (ascii ''Herbert'') 1965"

definition emma :: book where
  "emma = Book_default 2 (ascii ''Emma'') (ascii ''Austen'') 1815"

definition ulysses :: book where
  "ulysses = Book_default 3 (ascii ''Ulysses'') (ascii ''Joyce'') 1922"

definition shelf :: library_manager where
  "shelf = \<lparr>filename = ascii ''books.json'', books = [dune, emma, ulysses]\<rparr>"

definition empty_library :: library_manager where
  "empty_library = \<lparr>filename = ascii ''books.json'', books = []\<rparr>"

text \<open>
  A library of one book whose title is the Greek word for "street" in capitals (U+039F
  U+0394 U+039F U+03A3), ending in a capital sigma.
\<close>

definition odos :: book where
  "odos = Book_default 1 [927, 916, 927, 931] (ascii ''Anon'') 2001"

definition greek_shelf :: library_manager where
  "greek_shelf = \<lparr>filename = ascii ''books.json'', books = [odos]\<rparr>"

text \<open>
  A file system where no file exists, and one whose \<^verbatim>\<open>books.json\<close> was edited by hand:
  a well-formed document whose second record repeats the id 1 and whose third record has
  the status \<^verbatim>\<open>lost\<close>.
\<close>

definition no_files :: filesystem where
  "no_files = (\<lambda>path. Absent)"

definition edited_by_hand :: filesystem where
  "edited_by_hand =
     no_files(ascii ''books.json'' :=
       File (Document (JList [to_dict dune, to_dict (emma\<lparr>id' := 1\<rparr>),
                              to_dict (ulysses\<lparr>status := ascii ''lost''\<rparr>)])))"

section \<open>Adding a book\<close>

lemma fold_max_Max: "fold max xs (x::int) = Max (set (x # xs))"
proof (induction xs arbitrary: x)
  case Nil
  show ?case by simp
next
  case (Cons y ys)
  have "fold max (y # ys) x = Max (set (max y x # ys))"
    using Cons.IH by simp
  also have "\<dots> = Max (insert y (insert x (set ys)))"
    by (cases "set ys = {}") (simp_all add: max.commute max.left_commute max.assoc)
  finally show ?case by (simp add: insert_commute)
qed

lemma max_default_Max: "xs \<noteq> [] \<Longrightarrow> max_default xs d = Max (set xs)"
  by (cases xs) (simp_all add: fold_max_Max del: Max_insert set_simps)

text \<open>
  C2. \<^verbatim>\<open>add_book\<close> raises nothing (it is a total function of the state and its three
  inputs); the record it returns has the given title, author and year, the default status
  and the id \<open>max(existing ids, default 0) + 1\<close>, which is 1 on an empty store; the new
  state is the old list, untouched, with that record appended at its end.
\<close>

theorem add_book_spec:
  "fst (add_book self t a y) =
     \<lparr>id' = (if books self = [] then 0 else Max (id' ` set (books self))) + 1,
      title = t, author = a, year = y, status = available\<rparr>
   \<and> snd (add_book self t a y) = self\<lparr>books := books self @ [fst (add_book self t a y)]\<rparr>
   \<and> take (length (books self)) (books (snd (add_book self t a y))) = books self
   \<and> filename (snd (add_book self t a y)) = filename self"
  by (cases "books self = []")
     (simp_all add: add_book_def Book_default_def Book_def Let_def max_default_Max)

theorem add_book_spec_witness:
  "add_book empty_library (ascii ''Dune'') (ascii ''Herbert'') 1965
     = (dune, empty_library\<lparr>books := [dune]\<rparr>)
   \<and> id' (fst (add_book (empty_library\<lparr>books := [dune]\<rparr>) (ascii ''Emma'') (ascii ''Austen'') 1815))
       = 2
   \<and> id' (fst (add_book shelf (ascii ''Emma'') (ascii ''Austen'') 1815)) = 4
   \<and> status (fst (add_book shelf (ascii ''Emma'') (ascii ''Austen'') 1815)) = available"
  using add_book_spec[of empty_library "ascii ''Dune''" "ascii ''Herbert''" 1965]
    add_book_spec[of shelf "ascii ''Emma''" "ascii ''Austen''" 1815]
  by (simp add: empty_library_def shelf_def dune_def emma_def ulysses_def Book_default_def
      Book_def add_book_def Let_def)

section \<open>Finding the first book with an id\<close>

lemma find_split:
  "(\<forall>x\<in>set bs. \<not> P x) \<Longrightarrow> P b \<Longrightarrow> find P (bs @ b # as) = Some b"
  by (induction bs) simp_all

lemma find_SomeD:
  "find P xs = Some b \<Longrightarrow> \<exists>bs as. xs = bs @ b # as \<and> P b \<and> (\<forall>x\<in>set bs. \<not> P x)"
proof (induction xs)
  case Nil
  then show ?case by simp
next
  case (Cons x xs)
  show ?case
  proof (cases "P x")
    case True
    with Cons.prems have "x = b" by simp
    with True have "x # xs = [] @ b # xs \<and> P b \<and> (\<forall>x\<in>set []. \<not> P x)" by simp
    then show ?thesis by blast
  next
    case False
    with Cons.prems have "find P xs = Some b" by simp
    from Cons.IH[OF this] obtain bs as where
      "xs = bs @ b # as" "P b" "\<forall>x\<in>set bs. \<not> P x" by blast
    with False have "x # xs = (x # bs) @ b # as \<and> P b \<and> (\<forall>y\<in>set (x # bs). \<not> P y)" by simp
    then show ?thesis by blast
  qed
qed

lemma find_None: "find P xs = None \<longleftrightarrow> (\<forall>x\<in>set xs. \<not> P x)"
  by (induction xs) auto

lemma first_split:
  assumes "\<exists>x\<in>set xs. P x"
  shows "\<exists>bs b as. xs = bs @ b # as \<and> P b \<and> (\<forall>x\<in>set bs. \<not> P x)"
proof -
  from assms have "find P xs \<noteq> None" by (simp add: find_None)
  then obtain b where "find P xs = Some b" by blast
  from find_SomeD[OF this] show ?thesis by blast
qed

lemma first_index_split:
  "(\<forall>x\<in>set bs. \<not> P x) \<Longrightarrow> P b \<Longrightarrow> first_index P (bs @ b # as) = Some (length bs)"
  by (induction bs) simp_all

lemma first_index_None: "first_index P xs = None \<longleftrightarrow> (\<forall>x\<in>set xs. \<not> P x)"
  by (induction xs) auto

lemma remove_book_split:
  assumes "books self = bs @ b # as" "id' b = book_id" "\<forall>x\<in>set bs. id' x \<noteq> book_id"
  shows "remove_book self book_id = (True, self\<lparr>books := bs @ as\<rparr>)"
proof -
  have f: "find (\<lambda>book. id' book = book_id) (books self) = Some b"
    using assms by (simp add: find_split)
  have "b \<notin> set bs" using assms by blast
  then have "remove1 b (books self) = bs @ as"
    using assms(1) by (simp add: remove1_append)
  with f show ?thesis by (simp add: remove_book_def)
qed

lemma remove_book_missing:
  "\<forall>b\<in>set (books self). id' b \<noteq> book_id \<Longrightarrow> remove_book self book_id = (False, self)"
proof -
  assume "\<forall>b\<in>set (books self). id' b \<noteq> book_id"
  then have "find (\<lambda>book. id' book = book_id) (books self) = None"
    by (simp add: find_None)
  then show ?thesis by (simp add: remove_book_def)
qed

lemma update_status_split:
  assumes "books self = bs @ b # as" "id' b = book_id" "\<forall>x\<in>set bs. id' x \<noteq> book_id"
    and "new_status \<in> {available, checked_out}"
  shows "update_status self book_id new_status =
           (True, self\<lparr>books := bs @ b\<lparr>status := new_status\<rparr> # as\<rparr>)"
proof -
  have f: "first_index (\<lambda>book. id' book = book_id) (bs @ b # as) = Some (length bs)"
    using assms by (simp add: first_index_split)
  show ?thesis using assms(4) by (simp add: update_status_def assms(1) f)
qed

lemma update_status_missing:
  "\<forall>b\<in>set (books self). id' b \<noteq> book_id \<Longrightarrow> update_status self book_id s = (False, self)"
proof -
  assume "\<forall>b\<in>set (books self). id' b \<noteq> book_id"
  then have "first_index (\<lambda>book. id' book = book_id) (books self) = None"
    by (simp add: first_index_None)
  then show ?thesis by (simp add: update_status_def)
qed

section \<open>Substring search\<close>

lemma str_in_sublist: "str_in needle hay \<longleftrightarrow> sublist needle hay"
proof
  assume "str_in needle hay"
  then obtain i where i: "take (length needle) (drop i hay) = needle"
    by (auto simp: str_in_def list_ex_iff)
  have "hay = take i hay @ drop i hay" by simp
  also have "drop i hay = take (length needle) (drop i hay) @ drop (length needle) (drop i hay)"
    by (simp only: append_take_drop_id)
  finally have "hay = take i hay @ take (length needle) (drop i hay)
      @ drop (length needle) (drop i hay)" .
  with i have "hay = take i hay @ needle @ drop (length needle) (drop i hay)" by simp
  then show "sublist needle hay" unfolding sublist_def by blast
next
  assume "sublist needle hay"
  then obtain ps ss where h: "hay = ps @ needle @ ss" by (auto simp: sublist_def)
  then have "take (length needle) (drop (length ps) hay) = needle" by simp
  moreover have "length ps \<in> set [0 ..< Suc (length hay)]" using h by simp
  ultimately show "str_in needle hay" unfolding str_in_def list_ex_iff by blast
qed

text \<open>
  For a lower-casing that works character by character, as on ASCII text, containment of
  the lower-cased query in the lower-cased text says that some substring of the text
  equals the query up to case.
\<close>

lemma sublist_map_iff:
  "sublist (map f q) (map f t) \<longleftrightarrow> (\<exists>s. sublist s t \<and> map f s = map f q)"
proof
  assume "sublist (map f q) (map f t)"
  then obtain ps ss where "map f t = ps @ (map f q @ ss)" by (auto simp: sublist_def)
  then obtain t1 t23 where t: "t = t1 @ t23" and m: "map f q @ ss = map f t23"
    unfolding map_eq_append_conv by blast
  from m have "map f t23 = map f q @ ss" by simp
  then obtain t2 t3 where t23: "t23 = t2 @ t3" and q: "map f q = map f t2"
    unfolding map_eq_append_conv by blast
  from t t23 have "sublist t2 t" by (auto simp: sublist_def)
  with q show "\<exists>s. sublist s t \<and> map f s = map f q" by auto
next
  assume "\<exists>s. sublist s t \<and> map f s = map f q"
  then obtain s where s: "sublist s t" "map f s = map f q" by blast
  from map_mono_sublist[OF s(1), of f] s(2) show "sublist (map f q) (map f t)" by simp
qed

lemma ascii_lower_substring:
  "str_in (ascii_lower query) (ascii_lower text)
     \<longleftrightarrow> (\<exists>s. sublist s text \<and> ascii_lower s = ascii_lower query)"
  unfolding str_in_sublist ascii_lower_def by (rule sublist_map_iff)

lemma str_int_examples:
  "str_int 1965 = ascii ''1965'' \<and> str_int 0 = ascii ''0'' \<and> str_int (- 42) = ascii ''-42''"
  by (simp add: str_int_def digits.simps ascii_def)

lemma year_text:
  "str_int (year dune) = ascii ''1965''"
  "str_int (year emma) = ascii ''1815''"
  "str_int (year ulysses) = ascii ''1922''"
  by (simp_all add: dune_def emma_def ulysses_def Book_default_def Book_def str_int_def
      digits.simps ascii_def)

lemma search_year:
  "fst (search_books ascii_lower shelf (ascii ''19'') (ascii ''year'')) = [dune, ulysses]"
  by (simp add: search_books_def shelf_def str_getattr_def year_text ascii_def ascii_lower_def
      str_in_def)

section \<open>Removing a book\<close>

text \<open>
  C4. If some record has the id, \<open>remove_book\<close> returns \<open>True\<close> and deletes the first
  such record: the list is \<open>bs @ b # as\<close> with \<open>b\<close> the first record of that id, and it
  becomes \<open>bs @ as\<close>, so it is shorter by exactly one and the remaining records keep
  their order; when the ids were unique the id is no longer present. If no record has the
  id, the result is \<open>False\<close> and the state is unchanged. No case raises: \<open>remove_book\<close>
  is a total function.
\<close>

theorem remove_book_spec:
  "((\<exists>b\<in>set (books self). id' b = book_id) \<longrightarrow>
      (\<exists>bs b as. books self = bs @ b # as \<and> id' b = book_id \<and> (\<forall>x\<in>set bs. id' x \<noteq> book_id)
         \<and> remove_book self book_id = (True, self\<lparr>books := bs @ as\<rparr>))
      \<and> Suc (length (books (snd (remove_book self book_id)))) = length (books self)
      \<and> subseq (books (snd (remove_book self book_id))) (books self)
      \<and> (distinct (map id' (books self)) \<longrightarrow>
           book_id \<notin> id' ` set (books (snd (remove_book self book_id)))))
   \<and> ((\<forall>b\<in>set (books self). id' b \<noteq> book_id) \<longrightarrow> remove_book self book_id = (False, self))"
proof (intro conjI impI)
  assume "\<exists>b\<in>set (books self). id' b = book_id"
  from first_split[of "books self" "\<lambda>b. id' b = book_id", OF this] obtain bs b as where
    d: "books self = bs @ b # as" "id' b = book_id" "\<forall>x\<in>set bs. id' x \<noteq> book_id"
    by blast
  have r: "remove_book self book_id = (True, self\<lparr>books := bs @ as\<rparr>)"
    using d by (rule remove_book_split)
  from d r show "\<exists>bs b as. books self = bs @ b # as \<and> id' b = book_id
      \<and> (\<forall>x\<in>set bs. id' x \<noteq> book_id)
      \<and> remove_book self book_id = (True, self\<lparr>books := bs @ as\<rparr>)"
    by blast
  show "Suc (length (books (snd (remove_book self book_id)))) = length (books self)"
    by (simp add: r d(1))
  have "subseq as (b # as)"
    by (rule list_emb_Cons) simp
  then have "subseq (bs @ as) (bs @ b # as)"
    by (simp add: subseq_append')
  then show "subseq (books (snd (remove_book self book_id))) (books self)"
    by (simp add: r d(1))
  show "book_id \<notin> id' ` set (books (snd (remove_book self book_id)))"
    if "distinct (map id' (books self))"
    using that d by (auto simp: r)
next
  assume "\<forall>b\<in>set (books self). id' b \<noteq> book_id"
  then show "remove_book self book_id = (False, self)" by (rule remove_book_missing)
qed

theorem remove_book_spec_witness:
  "(\<exists>b\<in>set (books shelf). id' b = 2)
   \<and> remove_book shelf 2 = (True, shelf\<lparr>books := [dune, ulysses]\<rparr>)
   \<and> distinct (map id' (books shelf))
   \<and> 2 \<notin> id' ` set (books (snd (remove_book shelf 2)))
   \<and> 7 \<notin> id' ` set (books shelf)
   \<and> remove_book shelf 7 = (False, shelf)"
  using remove_book_spec[of shelf 2] remove_book_spec[of shelf 7]
  by (simp add: shelf_def dune_def emma_def ulysses_def Book_default_def Book_def remove_book_def)

section \<open>Updating a status\<close>

text \<open>
  C3. If the new status is one of the two labels and some record has the id,
  \<open>update_status\<close> returns \<open>True\<close> and the new state differs from the old one in the
  status field of the first record with that id, and in nothing else: the list
  \<open>bs @ b # as\<close> becomes \<open>bs @ b\<lparr>status := new_status\<rparr> # as\<close>. If the status is not
  one of the two labels, or no record has the id, it returns \<open>False\<close> and the state is
  unchanged.
\<close>

theorem update_status_spec:
  "(new_status \<in> {available, checked_out} \<and> (\<exists>b\<in>set (books self). id' b = book_id) \<longrightarrow>
      (\<exists>bs b as. books self = bs @ b # as \<and> id' b = book_id \<and> (\<forall>x\<in>set bs. id' x \<noteq> book_id)
         \<and> update_status self book_id new_status =
             (True, self\<lparr>books := bs @ b\<lparr>status := new_status\<rparr> # as\<rparr>)))
   \<and> (new_status \<notin> {available, checked_out} \<or> (\<forall>b\<in>set (books self). id' b \<noteq> book_id) \<longrightarrow>
        update_status self book_id new_status = (False, self))"
proof (intro conjI impI)
  assume a: "new_status \<in> {available, checked_out} \<and> (\<exists>b\<in>set (books self). id' b = book_id)"
  then have "\<exists>b\<in>set (books self). id' b = book_id" by blast
  from first_split[of "books self" "\<lambda>b. id' b = book_id", OF this] obtain bs b as where
    d: "books self = bs @ b # as" "id' b = book_id" "\<forall>x\<in>set bs. id' x \<noteq> book_id"
    by blast
  from a have "new_status \<in> {available, checked_out}" by blast
  with d have "update_status self book_id new_status =
      (True, self\<lparr>books := bs @ b\<lparr>status := new_status\<rparr> # as\<rparr>)"
    by (rule update_status_split)
  with d show "\<exists>bs b as. books self = bs @ b # as \<and> id' b = book_id
      \<and> (\<forall>x\<in>set bs. id' x \<noteq> book_id)
      \<and> update_status self book_id new_status =
          (True, self\<lparr>books := bs @ b\<lparr>status := new_status\<rparr> # as\<rparr>)"
    by blast
next
  assume "new_status \<notin> {available, checked_out} \<or> (\<forall>b\<in>set (books self). id' b \<noteq> book_id)"
  then show "update_status self book_id new_status = (False, self)"
  proof
    assume "new_status \<notin> {available, checked_out}"
    then show ?thesis by (simp add: update_status_def)
  next
    assume "\<forall>b\<in>set (books self). id' b \<noteq> book_id"
    then show ?thesis by (rule update_status_missing)
  qed
qed

theorem update_status_spec_witness:
  "checked_out \<in> {available, checked_out} \<and> (\<exists>b\<in>set (books shelf). id' b = 2)
   \<and> update_status shelf 2 checked_out
       = (True, shelf\<lparr>books := [dune, emma\<lparr>status := checked_out\<rparr>, ulysses]\<rparr>)
   \<and> 7 \<notin> id' ` set (books shelf)
   \<and> update_status shelf 7 checked_out = (False, shelf)
   \<and> ascii ''lost'' \<notin> {available, checked_out}
   \<and> update_status shelf 2 (ascii ''lost'') = (False, shelf)"
  using update_status_spec[of checked_out shelf 2] update_status_spec[of checked_out shelf 7]
    update_status_spec[of "ascii ''lost''" shelf 2]
  by (simp add: shelf_def dune_def emma_def ulysses_def Book_default_def Book_def
      update_status_def available_def checked_out_def ascii_def)

section \<open>Searching\<close>

lemma greek_lower_examples:
  "greek_lower [931] = [963]"
  "greek_lower [927, 916, 927, 931] = [959, 948, 959, 962]"
  "greek_lower (ascii ''Dune'') = ascii ''dune''"
  by (simp_all add: greek_lower_def cased_def lower_char_def ascii_def)

text \<open>
  C5, as the claim states it, fails: the search compares the lower-cased query with the
  lower-cased field text, and that is not containment up to case. The query of the single
  letter capital sigma is literally a substring of the title of the book \<open>odos\<close>, so
  it is one on any reading of "case-insensitive"; but alone it is lower-cased to U+03C3,
  and at the end of the title to the final sigma U+03C2, so the search on the field
  \<^verbatim>\<open>title\<close> returns nothing.
\<close>

theorem search_misses_literal_substring:
  "sublist [931] (title odos)
   \<and> greek_lower [931] = [963]
   \<and> greek_lower (title odos) = [959, 948, 959, 962]
   \<and> fst (search_books greek_lower greek_shelf [931] (ascii ''title'')) = []"
proof -
  have t: "title odos = [927, 916, 927, 931]"
    by (simp add: odos_def Book_default_def Book_def)
  have "[927, 916, 927, 931] = [927, 916, 927] @ [931::nat] @ []" by simp
  then have s: "sublist [931] (title odos)" unfolding t sublist_def by blast
  have r: "fst (search_books greek_lower greek_shelf [931] (ascii ''title'')) = []"
    by (simp add: search_books_def greek_shelf_def str_getattr_def t greek_lower_examples
        str_in_def ascii_def)
  from s r t show ?thesis by (simp add: greek_lower_examples)
qed

text \<open>
  C5, amended. For each of the three field names, \<open>search_books\<close> returns the records of
  the store, in the store's order, for which the lower-cased field text (of the title, of
  the author, or of the decimal text of the year) contains the lower-cased query as a
  contiguous substring; for any other field name it returns the empty list; the state is
  unchanged in every case. \<open>lower\<close> stands for \<^verbatim>\<open>str.lower\<close>; the statement holds of
  any function in its place. (Where lower-casing works character by character, as on ASCII
  text, this is containment of the query up to case: \<open>ascii_lower_substring\<close>.)
\<close>

theorem search_books_spec:
  "fst (search_books lower self query (ascii ''title''))
     = filter (\<lambda>book. sublist (lower query) (lower (title book))) (books self)
   \<and> fst (search_books lower self query (ascii ''author''))
     = filter (\<lambda>book. sublist (lower query) (lower (author book))) (books self)
   \<and> fst (search_books lower self query (ascii ''year''))
     = filter (\<lambda>book. sublist (lower query) (lower (str_int (year book)))) (books self)
   \<and> (key \<notin> {ascii ''title'', ascii ''author'', ascii ''year''} \<longrightarrow>
        fst (search_books lower self query key) = [])
   \<and> snd (search_books lower self query key) = self"
  by (simp add: search_books_def str_in_sublist str_getattr_def ascii_def)

theorem search_books_spec_witness:
  "ascii ''status'' \<notin> {ascii ''title'', ascii ''author'', ascii ''year''}
   \<and> fst (search_books ascii_lower shelf (ascii ''available'') (ascii ''status'')) = []
   \<and> fst (search_books ascii_lower shelf (ascii ''E'') (ascii ''title'')) = [dune, emma, ulysses]
   \<and> fst (search_books ascii_lower shelf (ascii ''ss'') (ascii ''title'')) = [ulysses]
   \<and> fst (search_books ascii_lower shelf (ascii ''19'') (ascii ''year'')) = [dune, ulysses]"
proof -
  have "ascii ''status'' \<notin> {ascii ''title'', ascii ''author'', ascii ''year''}"
    by (simp add: ascii_def)
  with search_books_spec[of ascii_lower shelf "ascii ''available''" "ascii ''status''"]
  have none: "fst (search_books ascii_lower shelf (ascii ''available'') (ascii ''status'')) = []"
    by blast
  have titles:
    "fst (search_books ascii_lower shelf (ascii ''E'') (ascii ''title'')) = [dune, emma, ulysses]
     \<and> fst (search_books ascii_lower shelf (ascii ''ss'') (ascii ''title'')) = [ulysses]"
    by (simp add: shelf_def dune_def emma_def ulysses_def Book_default_def Book_def
        search_books_def str_getattr_def ascii_lower_def ascii_def str_in_def)
  from none titles search_year show ?thesis by (simp add: ascii_def)
qed

text \<open>
  C10. With the empty string as query and any of the three field names, \<open>search_books\<close>
  returns the whole collection in its order. The lower-casing function is assumed to map
  the empty string to itself, as \<^verbatim>\<open>str.lower\<close> does.
\<close>

theorem search_books_empty_query:
  "lower [] = [] \<Longrightarrow> key \<in> {ascii ''title'', ascii ''author'', ascii ''year''} \<Longrightarrow>
     fst (search_books lower self [] key) = books self"
  by (simp add: search_books_def str_in_sublist)

theorem search_books_empty_query_witness:
  "ascii_lower [] = [] \<and> ascii ''year'' \<in> {ascii ''title'', ascii ''author'', ascii ''year''}
   \<and> fst (search_books ascii_lower shelf [] (ascii ''year'')) = [dune, emma, ulysses]"
  using search_books_empty_query[of ascii_lower "ascii ''year''" shelf]
  by (simp add: ascii_lower_def shelf_def)

section \<open>Saving and loading\<close>

lemma from_dict_to_dict: "from_dict (to_dict b) = Inr b"
  by (simp add: from_dict_def to_dict_def and_then_def Book_def ascii_def)

lemma comprehension_to_dict: "comprehension from_dict (map to_dict bs) = Inr bs"
  by (induction bs) (simp_all add: from_dict_to_dict and_then_def)

lemma load_written:
  "fs path = File (Document (JList (map to_dict bs))) \<Longrightarrow> load_from_file fs path = Inr bs"
  by (simp add: load_from_file_def load_try_def open_read_def json_load_def and_then_def
      comprehension_to_dict)

lemma save_to_file_InrD:
  "save_to_file fs self = Inr fs' \<Longrightarrow>
     fs' = fs(filename self := File (Document (JList (map to_dict (books self)))))"
  by (simp add: save_to_file_def split: if_splits)

lemma load_saved:
  assumes "save_to_file fs self = Inr fs'"
  shows "load_from_file fs' (filename self) = Inr (books self)"
proof -
  from save_to_file_InrD[OF assms]
  have "fs' (filename self) = File (Document (JList (map to_dict (books self))))"
    by simp
  then show ?thesis by (rule load_written)
qed

lemma load_fallback:
  "fs path = Absent \<or> fs path = File Malformed \<Longrightarrow> load_from_file fs path = Inr []"
  by (auto simp: load_from_file_def load_try_def open_read_def json_load_def and_then_def)

lemma shelf_encodable: "list_all book_encodable (books shelf)"
  by (simp add: shelf_def dune_def emma_def ulysses_def Book_default_def Book_def
      book_encodable_def utf8_encodable_def ascii_def available_def)

text \<open>
  C1. Saving succeeds whenever the path can be opened for writing and every string of
  the collection can be encoded; and whenever saving has succeeded, loading from the same
  path in the file system it left returns the very list of records that was saved (the
  same records with the same five fields, in the same order), so that a manager
  constructed on that path equals the one that saved.
\<close>

theorem save_load_roundtrip:
  "(fs (filename self) \<noteq> Locked \<and> list_all book_encodable (books self) \<longrightarrow>
      (\<exists>fs'. save_to_file fs self = Inr fs'))
   \<and> (\<forall>fs'. save_to_file fs self = Inr fs' \<longrightarrow>
        load_from_file fs' (filename self) = Inr (books self)
        \<and> LibraryManager fs' (filename self) = Inr self)"
proof (intro conjI allI impI)
  assume "fs (filename self) \<noteq> Locked \<and> list_all book_encodable (books self)"
  then show "\<exists>fs'. save_to_file fs self = Inr fs'"
    by (simp add: save_to_file_def)
next
  fix fs' assume "save_to_file fs self = Inr fs'"
  then show l: "load_from_file fs' (filename self) = Inr (books self)"
    by (rule load_saved)
  then show "LibraryManager fs' (filename self) = Inr self"
    by (simp add: LibraryManager_def and_then_def)
qed

theorem save_load_roundtrip_witness:
  "no_files (filename shelf) \<noteq> Locked \<and> list_all book_encodable (books shelf)
   \<and> (\<exists>fs'. save_to_file no_files shelf = Inr fs'
         \<and> load_from_file fs' (filename shelf) = Inr [dune, emma, ulysses])"
proof -
  have h: "no_files (filename shelf) \<noteq> Locked \<and> list_all book_encodable (books shelf)"
    using shelf_encodable by (simp add: no_files_def)
  with save_load_roundtrip[of no_files shelf] obtain fs' where
    s: "save_to_file no_files shelf = Inr fs'" by blast
  with save_load_roundtrip[of no_files shelf]
  have "load_from_file fs' (filename shelf) = Inr (books shelf)" by blast
  then have "load_from_file fs' (filename shelf) = Inr [dune, emma, ulysses]"
    by (simp add: shelf_def)
  with h s show ?thesis by blast
qed

text \<open>
  C7, as the claim states it, fails: a file whose bytes are not UTF-8 text is not valid
  JSON, and loading it raises \<^verbatim>\<open>UnicodeDecodeError\<close>, which the \<^verbatim>\<open>except\<close> clause
  does not name.
\<close>

theorem load_undecodable_raises:
  "load_from_file (no_files(ascii ''books.json'' := File Undecodable)) (ascii ''books.json'')
     = Inl UnicodeDecodeError"
  by (simp add: load_from_file_def load_try_def open_read_def json_load_def and_then_def)

text \<open>
  C7, amended. If the file does not exist, or it is text that \<^verbatim>\<open>json.load\<close> rejects
  with \<^verbatim>\<open>JSONDecodeError\<close>, loading returns the empty collection and no exception
  escapes; the manager is then constructed with an empty list.
\<close>

theorem load_from_file_fallback:
  "fs path = Absent \<or> fs path = File Malformed \<Longrightarrow>
     load_from_file fs path = Inr []
     \<and> LibraryManager fs path = Inr \<lparr>filename = path, books = []\<rparr>"
  by (simp add: load_fallback LibraryManager_def and_then_def)

theorem load_from_file_fallback_witness:
  "no_files (ascii ''books.json'') = Absent
   \<and> load_from_file no_files (ascii ''books.json'') = Inr []
   \<and> (no_files(ascii ''books.json'' := File Malformed)) (ascii ''books.json'') = File Malformed
   \<and> load_from_file (no_files(ascii ''books.json'' := File Malformed)) (ascii ''books.json'')
       = Inr []"
  using load_from_file_fallback[of no_files "ascii ''books.json''"]
    load_from_file_fallback[of "no_files(ascii ''books.json'' := File Malformed)"
      "ascii ''books.json''"]
  by (simp add: no_files_def)

section \<open>The search option of the menu\<close>

lemma search_books_state: "snd (search_books lower library query key) = library"
  by (simp add: search_books_def)

lemma main_choice_3_found:
  "fst (search_books lower library query key) \<noteq> [] \<Longrightarrow>
     fst (main_choice_3 lower library key query) = fst (display_books library)"
  by (simp add: main_choice_3_def Let_def split_beta search_books_state)

lemma main_choice_3_none:
  "fst (search_books lower library query key) = [] \<Longrightarrow>
     fst (main_choice_3 lower library key query) = [msg_not_found]"
  by (simp add: main_choice_3_def Let_def split_beta search_books_state)

lemma search_dune:
  "fst (search_books ascii_lower shelf (ascii ''dune'') (ascii ''title'')) = [dune]"
  by (simp add: shelf_def dune_def emma_def ulysses_def Book_default_def Book_def
      search_books_def str_getattr_def ascii_lower_def ascii_def str_in_def)

text \<open>
  C9. The code does not do what the claim says. When the search finds something, the
  branch calls \<^verbatim>\<open>display_books\<close>, which prints the whole collection
  (\<open>main_choice_3_found\<close>), not the matches. On the sample library the query
  \<^verbatim>\<open>dune\<close> on the field \<^verbatim>\<open>title\<close> matches one record, and the branch prints the
  heading and the lines of all three records.
\<close>

theorem main_choice_3_prints_all:
  "fst (search_books ascii_lower shelf (ascii ''dune'') (ascii ''title'')) = [dune]
   \<and> fst (main_choice_3 ascii_lower shelf (ascii ''title'') (ascii ''dune''))
       = msg_book_list # map book_line [dune, emma, ulysses]
   \<and> fst (main_choice_3 ascii_lower shelf (ascii ''title'') (ascii ''dune''))
       \<noteq> msg_book_list # map book_line [dune]"
proof -
  have s: "fst (search_books ascii_lower shelf (ascii ''dune'') (ascii ''title'')) = [dune]"
    by (rule search_dune)
  then have "fst (main_choice_3 ascii_lower shelf (ascii ''title'') (ascii ''dune''))
      = fst (display_books shelf)"
    by (simp add: main_choice_3_found)
  then have p: "fst (main_choice_3 ascii_lower shelf (ascii ''title'') (ascii ''dune''))
      = msg_book_list # map book_line [dune, emma, ulysses]"
    by (simp add: display_books_def shelf_def)
  from s p show ?thesis by simp
qed

section \<open>The invariant\<close>

lemma add_book_id_greater:
  "b \<in> set (books self) \<Longrightarrow> id' b < id' (fst (add_book self t a y))"
proof -
  assume b: "b \<in> set (books self)"
  then have ne: "map id' (books self) \<noteq> []" by auto
  have "id' b \<le> Max (set (map id' (books self)))" using b by simp
  then show ?thesis
    by (simp add: add_book_def Book_default_def Book_def Let_def max_default_Max[OF ne])
qed

lemma invariant_add_book: "invariant self \<Longrightarrow> invariant (snd (add_book self t a y))"
proof -
  assume i: "invariant self"
  have new: "id' (fst (add_book self t a y)) \<notin> id' ` set (books self)"
    using add_book_id_greater[of _ self t a y] by force
  have s: "status (fst (add_book self t a y)) = available"
    by (simp add: add_book_def Book_default_def Book_def Let_def)
  have e: "books (snd (add_book self t a y)) = books self @ [fst (add_book self t a y)]"
    by (simp add: add_book_def Let_def)
  show ?thesis using i new s unfolding invariant_def e by simp
qed

lemma invariant_remove_book: "invariant self \<Longrightarrow> invariant (snd (remove_book self book_id))"
proof (cases "\<exists>b\<in>set (books self). id' b = book_id")
  case True
  assume i: "invariant self"
  from first_split[of "books self" "\<lambda>b. id' b = book_id", OF True] obtain bs b as where
    d: "books self = bs @ b # as" "id' b = book_id" "\<forall>x\<in>set bs. id' x \<noteq> book_id"
    by blast
  have "remove_book self book_id = (True, self\<lparr>books := bs @ as\<rparr>)"
    using d by (rule remove_book_split)
  with i d(1) show ?thesis by (auto simp: invariant_def)
next
  case False
  assume "invariant self"
  with False show ?thesis by (simp add: remove_book_missing)
qed

lemma invariant_update_status:
  "invariant self \<Longrightarrow> invariant (snd (update_status self book_id s))"
proof (cases "s \<in> {available, checked_out} \<and> (\<exists>b\<in>set (books self). id' b = book_id)")
  case True
  assume i: "invariant self"
  from True have "\<exists>b\<in>set (books self). id' b = book_id" by blast
  from first_split[of "books self" "\<lambda>b. id' b = book_id", OF this] obtain bs b as where
    d: "books self = bs @ b # as" "id' b = book_id" "\<forall>x\<in>set bs. id' x \<noteq> book_id"
    by blast
  from True have "s \<in> {available, checked_out}" by blast
  with d have u: "update_status self book_id s = (True, self\<lparr>books := bs @ b\<lparr>status := s\<rparr> # as\<rparr>)"
    by (rule update_status_split)
  from True have "s = available \<or> s = checked_out" by blast
  with i d(1) show ?thesis by (auto simp: invariant_def u)
next
  case False
  assume i: "invariant self"
  have "update_status self book_id s = (False, self)"
  proof (cases "s \<in> {available, checked_out}")
    case True
    with False have "\<forall>b\<in>set (books self). id' b \<noteq> book_id" by blast
    then show ?thesis by (rule update_status_missing)
  next
    case False
    then show ?thesis by (simp add: update_status_def)
  qed
  with i show ?thesis by simp
qed

lemma invariant_step: "invariant self \<Longrightarrow> invariant (step lower self c)"
  by (cases c)
     (simp_all add: invariant_add_book invariant_remove_book invariant_update_status
        search_books_def display_books_def)

lemma invariant_run: "invariant self \<Longrightarrow> invariant (run lower self cmds)"
  unfolding run_def by (induction cmds arbitrary: self) (simp_all add: invariant_step)

lemma invariant_empty: "invariant \<lparr>filename = path, books = []\<rparr>"
  by (simp add: invariant_def)

lemma invariant_shelf: "invariant shelf"
  by (simp add: invariant_def shelf_def dune_def emma_def ulysses_def Book_default_def Book_def)

text \<open>
  C6, as the claim states it, fails: loading does not check the records of the file. The
  hand-edited file loads without an exception into a store in which two records have
  the id 1 and one record has the status \<^verbatim>\<open>lost\<close>.
\<close>

theorem load_breaks_invariant:
  "LibraryManager edited_by_hand (ascii ''books.json'')
     = Inr \<lparr>filename = ascii ''books.json'',
            books = [dune, emma\<lparr>id' := 1\<rparr>, ulysses\<lparr>status := ascii ''lost''\<rparr>]\<rparr>
   \<and> \<not> distinct (map id' [dune, emma\<lparr>id' := 1\<rparr>, ulysses\<lparr>status := ascii ''lost''\<rparr>])
   \<and> status (ulysses\<lparr>status := ascii ''lost''\<rparr>) \<noteq> available
   \<and> status (ulysses\<lparr>status := ascii ''lost''\<rparr>) \<noteq> checked_out
   \<and> \<not> invariant \<lparr>filename = ascii ''books.json'',
            books = [dune, emma\<lparr>id' := 1\<rparr>, ulysses\<lparr>status := ascii ''lost''\<rparr>]\<rparr>"
proof -
  have "edited_by_hand (ascii ''books.json'')
      = File (Document (JList (map to_dict
          [dune, emma\<lparr>id' := 1\<rparr>, ulysses\<lparr>status := ascii ''lost''\<rparr>])))"
    by (simp add: edited_by_hand_def)
  then have "load_from_file edited_by_hand (ascii ''books.json'')
      = Inr [dune, emma\<lparr>id' := 1\<rparr>, ulysses\<lparr>status := ascii ''lost''\<rparr>]"
    by (rule load_written)
  then have l: "LibraryManager edited_by_hand (ascii ''books.json'')
     = Inr \<lparr>filename = ascii ''books.json'',
            books = [dune, emma\<lparr>id' := 1\<rparr>, ulysses\<lparr>status := ascii ''lost''\<rparr>]\<rparr>"
    by (simp add: LibraryManager_def and_then_def)
  have d: "\<not> distinct (map id' [dune, emma\<lparr>id' := 1\<rparr>, ulysses\<lparr>status := ascii ''lost''\<rparr>])"
    by (simp add: dune_def Book_default_def Book_def)
  have s: "status (ulysses\<lparr>status := ascii ''lost''\<rparr>) \<noteq> available
      \<and> status (ulysses\<lparr>status := ascii ''lost''\<rparr>) \<noteq> checked_out"
    by (simp add: ascii_def available_def checked_out_def)
  from l d s show ?thesis by (simp add: invariant_def)
qed

text \<open>
  C6, amended. The operations keep the invariant: in every state reached by any sequence
  of add, remove, search, update-status and list operations from a store in which the
  ids are unique and every status is one of the two labels, the same holds. Such starting
  stores are the empty one that the constructor gets for a missing or malformed file, and
  the one it loads from a file that \<open>save_to_file\<close> wrote from a store with the invariant.
\<close>

theorem invariant_reachable:
  "(invariant self \<longrightarrow> invariant (run lower self cmds))
   \<and> (fs path = Absent \<or> fs path = File Malformed \<longrightarrow>
        (\<exists>library. LibraryManager fs path = Inr library
           \<and> invariant (run lower library cmds)))
   \<and> (invariant self \<and> save_to_file fs self = Inr fs' \<longrightarrow>
        (\<exists>library. LibraryManager fs' (filename self) = Inr library
           \<and> invariant (run lower library cmds)))"
proof (intro conjI impI)
  assume "invariant self"
  then show "invariant (run lower self cmds)" by (rule invariant_run)
next
  assume "fs path = Absent \<or> fs path = File Malformed"
  then have "LibraryManager fs path = Inr \<lparr>filename = path, books = []\<rparr>"
    by (simp add: load_fallback LibraryManager_def and_then_def)
  moreover have "invariant (run lower \<lparr>filename = path, books = []\<rparr> cmds)"
    using invariant_empty by (rule invariant_run)
  ultimately show "\<exists>library. LibraryManager fs path = Inr library
      \<and> invariant (run lower library cmds)"
    by blast
next
  assume a: "invariant self \<and> save_to_file fs self = Inr fs'"
  then have "save_to_file fs self = Inr fs'" by blast
  then have "load_from_file fs' (filename self) = Inr (books self)"
    by (rule load_saved)
  then have "LibraryManager fs' (filename self) = Inr self"
    by (simp add: LibraryManager_def and_then_def)
  moreover from a have "invariant (run lower self cmds)"
    by (simp add: invariant_run)
  ultimately show "\<exists>library. LibraryManager fs' (filename self) = Inr library
      \<and> invariant (run lower library cmds)"
    by blast
qed

theorem invariant_reachable_witness:
  "invariant shelf
   \<and> invariant (run ascii_lower shelf
        [Add (ascii ''Emma'') (ascii ''Austen'') 1815, Remove 1, Update 2 checked_out,
         Search (ascii ''e'') (ascii ''title''), Display])
   \<and> no_files (ascii ''books.json'') = Absent
   \<and> (\<exists>library. LibraryManager no_files (ascii ''books.json'') = Inr library
         \<and> invariant (run ascii_lower library [Add (ascii ''Dune'') (ascii ''Herbert'') 1965]))
   \<and> (\<exists>fs'. save_to_file no_files shelf = Inr fs'
         \<and> (\<exists>library. LibraryManager fs' (filename shelf) = Inr library
               \<and> invariant (run ascii_lower library [Remove 3])))"
proof -
  let ?cmds = "[Add (ascii ''Emma'') (ascii ''Austen'') 1815, Remove 1, Update 2 checked_out,
         Search (ascii ''e'') (ascii ''title''), Display]"
  have i: "invariant shelf" by (rule invariant_shelf)
  with invariant_reachable[of shelf ascii_lower ?cmds]
  have r: "invariant (run ascii_lower shelf ?cmds)" by blast
  have a: "no_files (ascii ''books.json'') = Absent" by (simp add: no_files_def)
  with invariant_reachable[of _ _ _ no_files "ascii ''books.json''"]
  have e: "\<exists>library. LibraryManager no_files (ascii ''books.json'') = Inr library
         \<and> invariant (run ascii_lower library [Add (ascii ''Dune'') (ascii ''Herbert'') 1965])"
    by blast
  have "save_to_file no_files shelf
      = Inr (no_files(filename shelf := File (Document (JList (map to_dict (books shelf))))))"
    using shelf_encodable by (simp add: save_to_file_def no_files_def)
  with i invariant_reachable[of shelf ascii_lower "[Remove 3]" no_files]
  have s: "\<exists>fs'. save_to_file no_files shelf = Inr fs'
         \<and> (\<exists>library. LibraryManager fs' (filename shelf) = Inr library
               \<and> invariant (run ascii_lower library [Remove 3]))"
    by blast
  from i r a e s show ?thesis by blast
qed

section \<open>Ids over time\<close>

text \<open>
  C8, as the claim states it, fails: the next id is one more than the largest id in the
  store, so removing the record with the largest id frees that id. From the empty
  library, two adds assign the ids 1 and 2; after the record with id 2 is removed, the next
  add assigns 2 again.
\<close>

theorem removed_id_assigned_again:
  "map id' (books (run ascii_lower empty_library
      [Add (ascii ''Dune'') (ascii ''Herbert'') 1965,
       Add (ascii ''Emma'') (ascii ''Austen'') 1815])) = [1, 2]
   \<and> fst (remove_book (run ascii_lower empty_library
      [Add (ascii ''Dune'') (ascii ''Herbert'') 1965,
       Add (ascii ''Emma'') (ascii ''Austen'') 1815]) 2) = True
   \<and> map id' (books (run ascii_lower empty_library
      [Add (ascii ''Dune'') (ascii ''Herbert'') 1965,
       Add (ascii ''Emma'') (ascii ''Austen'') 1815, Remove 2])) = [1]
   \<and> id' (fst (add_book (run ascii_lower empty_library
      [Add (ascii ''Dune'') (ascii ''Herbert'') 1965,
       Add (ascii ''Emma'') (ascii ''Austen'') 1815, Remove 2])
      (ascii ''Ulysses'') (ascii ''Joyce'') 1922)) = 2"
  by (simp add: run_def empty_library_def add_book_def remove_book_def Book_default_def
      Book_def Let_def)

text \<open>
  C8, amended. In the state after any sequence of operations, an add assigns an id that
  is greater than the id of every record then in the store. So an id whose record was
  removed is not assigned again as long as a record with that id or a greater one is in
  the store; a later add assigns the id \<open>i\<close> only when all records then present have ids
  below \<open>i\<close>.
\<close>

theorem add_book_id_above_store:
  "(\<forall>b\<in>set (books (run lower self cmds)).
      id' b < id' (fst (add_book (run lower self cmds) t a y)))
   \<and> (id' (fst (add_book (run lower self cmds) t a y)) = i \<longrightarrow>
        (\<forall>b\<in>set (books (run lower self cmds)). id' b < i))"
  using add_book_id_greater by blast

theorem add_book_id_above_store_witness:
  "list_all (\<lambda>b. id' b < 4) (books (run ascii_lower shelf [Remove 2]))
   \<and> id' (fst (add_book (run ascii_lower shelf [Remove 2])
        (ascii ''Emma'') (ascii ''Austen'') 1815)) = 4
   \<and> books (run ascii_lower shelf [Remove 2]) = [dune, ulysses]"
  using add_book_id_above_store[of ascii_lower shelf "[Remove 2]"
      "ascii ''Emma''" "ascii ''Austen''" 1815 4]
  by (simp add: run_def shelf_def dune_def emma_def ulysses_def remove_book_def add_book_def
      Book_default_def Book_def Let_def)

end
